theory Spec2Isabelle
  imports Complex_Main "HOL-Library.Word" "HOL-Library.Log_Nat"
begin

section \<open>Data model\<close>

text \<open>
  The message types come from the generated package \<^verbatim>\<open>rp\<close> (the protobuf schema of the
  service). Their integer fields are Go \<^verbatim>\<open>int32\<close>: 32-bit words read in two's complement
  by \<open>sint\<close>, with wrapping addition.
\<close>

type_synonym int32 = "32 word"

text \<open>
  Modelled from the spec: the message structs \<^verbatim>\<open>rp.Point\<close>, \<^verbatim>\<open>rp.Rectangle\<close>,
  \<^verbatim>\<open>rp.Feature\<close>, \<^verbatim>\<open>rp.RouteNote\<close> and \<^verbatim>\<open>rp.RouteSummary\<close> (package \<^verbatim>\<open>proto\<close>,
  generated code that the server imports). A Point is a pair of signed 32-bit
  latitude/longitude values, a Rectangle two corner Points, a Feature a name and a
  Location, a RouteNote a Location and a Message, a RouteSummary four int32 values.
  Every sub-message is taken as present.
\<close>

record Point =
  Latitude :: int32
  Longitude :: int32

record Rectangle =
  Lo :: Point
  Hi :: Point

record Feature =
  Name :: string
  Location :: Point

record RouteNote =
  Location :: Point
  Message :: string

record RouteSummary =
  PointCount :: int32
  FeatureCount :: int32
  Distance :: int32
  ElapsedTime :: int32

section \<open>Geometry\<close>

subsection \<open>Conversion of integers to float64\<close>

text \<open>
  A finite float64 is modelled by the real number it denotes. Go's conversion
  \<^verbatim>\<open>float64(n)\<close> of an integer rounds \<open>n\<close> to the nearest number with a 53-bit
  significand, ties to even: \<open>k\<close> is the number of low bits that do not fit, \<open>q\<close> the
  significand before rounding and \<open>r\<close> the bits cut off.
\<close>

definition float64_of_int :: "int \<Rightarrow> real" where
  "float64_of_int n =
     (let a = \<bar>n\<bar>;
          k = floorlog 2 (nat a) - 53;
          q = a div 2 ^ k;
          r = a mod 2 ^ k;
          q' = (if 2 * r > 2 ^ k \<or> (2 * r = 2 ^ k \<and> odd q) then q + 1 else q)
      in real_of_int (sgn n * (q' * 2 ^ k)))"

definition float64 :: "int32 \<Rightarrow> real" where
  "float64 w = float64_of_int (sint w)"

text \<open>
  \<^verbatim>\<open>math.Min\<close> and \<^verbatim>\<open>math.Max\<close> on finite numbers; their special cases (infinities,
  NaN, negative zero) do not arise from converted integers.
\<close>

definition math_Min :: "real \<Rightarrow> real \<Rightarrow> real" where
  "math_Min x y = (if x < y then x else y)"

definition math_Max :: "real \<Rightarrow> real \<Rightarrow> real" where
  "math_Max x y = (if x > y then x else y)"

subsection \<open>inRange\<close>

definition inRange :: "Point \<Rightarrow> Rectangle \<Rightarrow> bool" where
  "inRange point rect =
     (let left = math_Min (float64 (Longitude (Lo rect))) (float64 (Longitude (Hi rect)));
          right = math_Max (float64 (Longitude (Lo rect))) (float64 (Longitude (Hi rect)));
          top = math_Max (float64 (Latitude (Lo rect))) (float64 (Latitude (Hi rect)));
          bottom = math_Min (float64 (Latitude (Lo rect))) (float64 (Latitude (Hi rect)))
      in if float64 (Longitude point) \<ge> left \<and>
            float64 (Longitude point) \<le> right \<and>
            float64 (Latitude point) \<ge> bottom \<and>
            float64 (Latitude point) \<le> top
         then True
         else False)"

text \<open>
  The purely integer comparison that \<open>inRange\<close> is compared with: the same test on the
  signed values of the coordinates, with no conversion.
\<close>

definition inRange_int :: "Point \<Rightarrow> Rectangle \<Rightarrow> bool" where
  "inRange_int point rect =
     (min (sint (Longitude (Lo rect))) (sint (Longitude (Hi rect))) \<le> sint (Longitude point) \<and>
      sint (Longitude point) \<le> max (sint (Longitude (Lo rect))) (sint (Longitude (Hi rect))) \<and>
      min (sint (Latitude (Lo rect))) (sint (Latitude (Hi rect))) \<le> sint (Latitude point) \<and>
      sint (Latitude point) \<le> max (sint (Latitude (Lo rect))) (sint (Latitude (Hi rect))))"

subsection \<open>calcDistance\<close>

text \<open>
  Float64 arithmetic is modelled on the real numbers that finite float64 values denote.
  Every arithmetic operation of the source (\<^verbatim>\<open>+\<close>, \<^verbatim>\<open>-\<close>, \<^verbatim>\<open>*\<close>, \<^verbatim>\<open>/\<close>) and
  \<^verbatim>\<open>math.Sqrt\<close> is the exact operation followed by the rounding \<open>rnd\<close> to float64; the
  constant \<^verbatim>\<open>math.Pi\<close> is the rounded \<open>pi\<close>. The library functions \<^verbatim>\<open>math.Sin\<close>,
  \<^verbatim>\<open>math.Cos\<close> and \<^verbatim>\<open>math.Atan2\<close>, which are not correctly rounded, and the conversion
  \<^verbatim>\<open>int32(distance)\<close>, whose result outside the int32 range depends on the platform,
  are operations of the record below. The rounding and these operations are parameters
  of the model; NaN and the infinities are not among the modelled values.
\<close>

record float_ops =
  rnd :: "real \<Rightarrow> real"
  Sin :: "real \<Rightarrow> real"
  Cos :: "real \<Rightarrow> real"
  Atan2 :: "real \<Rightarrow> real \<Rightarrow> real"
  toInt32 :: "real \<Rightarrow> int32"

definition toRadians :: "float_ops \<Rightarrow> real \<Rightarrow> real" where
  "toRadians fl num = rnd fl (rnd fl (num * rnd fl pi) / 180)"

definition calcDistance :: "float_ops \<Rightarrow> Point \<Rightarrow> Point \<Rightarrow> int32" where
  "calcDistance fl p1 p2 =
     (let CordFactor = 10000000;
          R = 6371000;
          lat1 = toRadians fl (rnd fl (float64 (Latitude p1) / CordFactor));
          lat2 = toRadians fl (rnd fl (float64 (Latitude p2) / CordFactor));
          lng1 = toRadians fl (rnd fl (float64 (Longitude p1) / CordFactor));
          lng2 = toRadians fl (rnd fl (float64 (Longitude p2) / CordFactor));
          dlat = rnd fl (lat2 - lat1);
          dlng = rnd fl (lng2 - lng1);
          a = rnd fl
                (rnd fl (Sin fl (rnd fl (dlat / 2)) * Sin fl (rnd fl (dlat / 2))) +
                 rnd fl (rnd fl (rnd fl (Cos fl lat1 * Cos fl lat2) *
                                 Sin fl (rnd fl (dlng / 2))) *
                         Sin fl (rnd fl (dlng / 2))));
          c = rnd fl (2 * Atan2 fl (rnd fl (sqrt a)) (rnd fl (sqrt (rnd fl (1 - a)))));
          distance = rnd fl (R * c)
      in toInt32 fl distance)"

section \<open>The server\<close>

text \<open>
  The server holds the features loaded at start-up and the notes left at each location,
  a Go map from the serialized location to the notes in the order they were appended.
  The mutex only orders concurrent calls; one call at a time is modelled.
\<close>

record server =
  knownFeatures :: "Feature list"
  routeNotes :: "string \<rightharpoonup> RouteNote list"

text \<open>An error other than \<^verbatim>\<open>io.EOF\<close> reported by a stream operation.\<close>

datatype error = TransportError

text \<open>
  Modelled from the spec: the stream objects of the generated package \<^verbatim>\<open>rp\<close>. An inbound
  stream is the list of the results its \<^verbatim>\<open>Recv\<close> calls will give, a message or a failure;
  when the list is exhausted \<^verbatim>\<open>Recv\<close> gives \<^verbatim>\<open>io.EOF\<close>. An outbound stream records the
  messages sent so far; \<open>failAfter\<close> is the number of \<^verbatim>\<open>Send\<close> calls that will still succeed
  before the transport fails (\<open>None\<close>: it never fails).
\<close>

datatype 'a recv = Msg 'a | Failed error

record 'a ostream =
  sent :: "'a list"
  failAfter :: "nat option"

definition Send :: "'a ostream \<Rightarrow> 'a \<Rightarrow> error option \<times> 'a ostream" where
  "Send stream m =
     (case failAfter stream of
        None \<Rightarrow> (None, stream\<lparr>sent := sent stream @ [m]\<rparr>)
      | Some 0 \<Rightarrow> (Some TransportError, stream)
      | Some (Suc k) \<Rightarrow> (None, stream\<lparr>sent := sent stream @ [m], failAfter := Some k\<rparr>))"

text \<open>\<^verbatim>\<open>proto.Equal\<close> on two Points: both fields are equal.\<close>

definition proto_Equal :: "Point \<Rightarrow> Point \<Rightarrow> bool" where
  "proto_Equal a b = (Latitude a = Latitude b \<and> Longitude a = Longitude b)"

subsection \<open>GetFeature\<close>

text \<open>The result is the pair of the feature and the error (\<open>None\<close> for \<^verbatim>\<open>nil\<close>).\<close>

fun GetFeature_loop :: "Feature list \<Rightarrow> Point \<Rightarrow> Feature \<times> error option" where
  "GetFeature_loop [] point = (\<lparr>Name = [], Feature.Location = point\<rparr>, None)"
| "GetFeature_loop (feature # rest) point =
     (if proto_Equal (Feature.Location feature) point then (feature, None)
      else GetFeature_loop rest point)"

definition GetFeature :: "server \<Rightarrow> Point \<Rightarrow> Feature \<times> error option" where
  "GetFeature s point = GetFeature_loop (knownFeatures s) point"

subsection \<open>ListFeatures\<close>

fun ListFeatures_loop ::
  "Rectangle \<Rightarrow> Feature list \<Rightarrow> Feature ostream \<Rightarrow> error option \<times> Feature ostream" where
  "ListFeatures_loop rect [] stream = (None, stream)"
| "ListFeatures_loop rect (feature # rest) stream =
     (if inRange (Feature.Location feature) rect
      then (case Send stream feature of
              (Some err, stream') \<Rightarrow> (Some err, stream')
            | (None, stream') \<Rightarrow> ListFeatures_loop rect rest stream')
      else ListFeatures_loop rect rest stream)"

definition ListFeatures ::
  "server \<Rightarrow> Rectangle \<Rightarrow> Feature ostream \<Rightarrow> error option \<times> Feature ostream" where
  "ListFeatures s rect stream = ListFeatures_loop rect (knownFeatures s) stream"

subsection \<open>RecordRoute\<close>

text \<open>The inner loop over the known features, for one received point.\<close>

fun countFeatures :: "Feature list \<Rightarrow> Point \<Rightarrow> int32 \<Rightarrow> int32" where
  "countFeatures [] point featureCount = featureCount"
| "countFeatures (feature # rest) point featureCount =
     countFeatures rest point
       (if proto_Equal (Feature.Location feature) point then featureCount + 1
        else featureCount)"

text \<open>
  The receive loop with its local variables; \<open>fl\<close> are the float64 operations that
  \<^verbatim>\<open>calcDistance\<close> uses. On \<^verbatim>\<open>io.EOF\<close> the result is the summary
  handed to \<^verbatim>\<open>SendAndClose\<close>; \<open>elapsed\<close> is the value of
  \<^verbatim>\<open>int32(endTime.Sub(startTime).Seconds())\<close>, read from the clock.
\<close>

fun RecordRoute_loop ::
  "float_ops \<Rightarrow> int32 \<Rightarrow> Feature list \<Rightarrow>
   int32 \<Rightarrow> int32 \<Rightarrow> int32 \<Rightarrow> Point option \<Rightarrow> Point recv list \<Rightarrow> error + RouteSummary" where
  "RecordRoute_loop fl elapsed features pointCount featureCount distance lastPoint [] =
     Inr \<lparr>PointCount = pointCount, FeatureCount = featureCount, Distance = distance,
          ElapsedTime = elapsed\<rparr>"
| "RecordRoute_loop fl elapsed features pointCount featureCount distance lastPoint
     (Failed err # rest) = Inl err"
| "RecordRoute_loop fl elapsed features pointCount featureCount distance lastPoint
     (Msg point # rest) =
     RecordRoute_loop fl elapsed features
       (pointCount + 1)
       (countFeatures features point featureCount)
       (case lastPoint of None \<Rightarrow> distance | Some lp \<Rightarrow> distance + calcDistance fl lp point)
       (Some point) rest"

definition RecordRoute ::
  "float_ops \<Rightarrow> int32 \<Rightarrow> server \<Rightarrow> Point recv list \<Rightarrow> error + RouteSummary" where
  "RecordRoute fl elapsed s stream =
     RecordRoute_loop fl elapsed (knownFeatures s) 0 0 0 None stream"

subsection \<open>RouteChat\<close>

text \<open>
  \<^verbatim>\<open>fmt.Sprintf("%d %d", ...)\<close>: each integer in decimal, most significant digit first,
  with a minus sign when negative, and one space between the two.
\<close>

definition digit_char :: "nat \<Rightarrow> char" where
  "digit_char d = char_of (48 + d)"

fun digits :: "nat \<Rightarrow> string" where
  "digits n = (if n < 10 then [digit_char n] else digits (n div 10) @ [digit_char (n mod 10)])"

definition format_d :: "int \<Rightarrow> string" where
  "format_d i = (if i < 0 then CHR ''-'' # digits (nat (- i)) else digits (nat i))"

definition routeKey :: "Point \<Rightarrow> string" where
  "routeKey location =
     format_d (sint (Latitude location)) @ '' '' @ format_d (sint (Longitude location))"

text \<open>The loop that sends the copied notes.\<close>

fun sendNotes ::
  "RouteNote list \<Rightarrow> RouteNote ostream \<Rightarrow> error option \<times> RouteNote ostream" where
  "sendNotes [] stream = (None, stream)"
| "sendNotes (rnote # rest) stream =
     (case Send stream rnote of
        (Some err, stream') \<Rightarrow> (Some err, stream')
      | (None, stream') \<Rightarrow> sendNotes rest stream')"

text \<open>
  The result is the error returned, the server with its notes updated and the outbound
  stream. A missing key of the Go map reads as the empty slice.
\<close>

fun RouteChat ::
  "server \<Rightarrow> RouteNote recv list \<Rightarrow> RouteNote ostream \<Rightarrow>
   error option \<times> server \<times> RouteNote ostream" where
  "RouteChat s [] stream = (None, s, stream)"
| "RouteChat s (Failed err # rest) stream = (Some err, s, stream)"
| "RouteChat s (Msg inp # rest) stream =
     (let key = routeKey (RouteNote.Location inp);
          notes = (case routeNotes s key of None \<Rightarrow> [] | Some ns \<Rightarrow> ns) @ [inp];
          s' = s\<lparr>routeNotes := (routeNotes s)(key \<mapsto> notes)\<rparr>;
          rn = notes
      in case sendNotes rn stream of
           (Some err, stream') \<Rightarrow> (Some err, s', stream')
         | (None, stream') \<Rightarrow> RouteChat s' rest stream')"

section \<open>Notions used to state the properties\<close>

text \<open>The rectangle whose corners are the least and the greatest int32 coordinates.\<close>

definition fullRectangle :: Rectangle where
  "fullRectangle =
     \<lparr>Lo = \<lparr>Latitude = - 2147483648, Longitude = - 2147483648\<rparr>,
      Hi = \<lparr>Latitude = 2147483647, Longitude = 2147483647\<rparr>\<rparr>"

text \<open>The number of store features located exactly at a point.\<close>

definition matchCount :: "Feature list \<Rightarrow> Point \<Rightarrow> nat" where
  "matchCount features point =
     length (filter (\<lambda>feature. proto_Equal (Feature.Location feature) point) features)"

text \<open>The consecutive pairs (previous, current) of a route.\<close>

definition legs :: "Point list \<Rightarrow> (Point \<times> Point) list" where
  "legs points = zip points (tl points)"

text \<open>
  The notes stored for a location: the entry of the map at its key, empty when the key
  is absent.
\<close>

definition notesAt :: "server \<Rightarrow> Point \<Rightarrow> RouteNote list" where
  "notesAt s location =
     (case routeNotes s (routeKey location) of None \<Rightarrow> [] | Some ns \<Rightarrow> ns)"

text \<open>
  An instance of the float64 operations, used to evaluate the handlers at concrete
  inputs: arithmetic without rounding error, the real sine, cosine and two-argument arc
  tangent, and the conversion to int32 that truncates towards zero.
\<close>

definition atan2 :: "real \<Rightarrow> real \<Rightarrow> real" where
  "atan2 y x =
     (if 0 < x then arctan (y / x)
      else if x < 0 \<and> 0 \<le> y then arctan (y / x) + pi
      else if x < 0 then arctan (y / x) - pi
      else if 0 < y then pi / 2
      else if y < 0 then - (pi / 2)
      else 0)"

definition exact_ops :: float_ops where
  "exact_ops =
     \<lparr>rnd = (\<lambda>x. x), Sin = sin, Cos = cos, Atan2 = atan2,
      toInt32 = (\<lambda>x. of_int (if x < 0 then \<lceil>x\<rceil> else \<lfloor>x\<rfloor>))\<rparr>"

definition origin :: Point where
  "origin = \<lparr>Latitude = 0, Longitude = 0\<rparr>"

section \<open>Properties of the geometry\<close>

lemma floorlog_small: "a < 2 ^ 53 \<Longrightarrow> floorlog 2 a - 53 = 0"
  by (simp add: floorlog_le_iff)

lemma float64_of_int_exact:
  assumes "\<bar>n\<bar> < 2 ^ 53"
  shows "float64_of_int n = real_of_int n"
proof -
  have "nat \<bar>n\<bar> < 2 ^ 53" using assms by simp
  then have k: "floorlog 2 (nat \<bar>n\<bar>) - 53 = 0" by (rule floorlog_small)
  have e: "sgn n *
      ((if 2 * (\<bar>n\<bar> mod 2 ^ 0) > 2 ^ 0 \<or> (2 * (\<bar>n\<bar> mod 2 ^ 0) = 2 ^ 0 \<and> odd (\<bar>n\<bar> div 2 ^ 0))
        then \<bar>n\<bar> div 2 ^ 0 + 1 else \<bar>n\<bar> div 2 ^ 0) * 2 ^ 0) = n"
    by (simp add: mult_sgn_abs)
  show ?thesis unfolding float64_of_int_def Let_def k e ..
qed

lemma sint32_small: "\<bar>sint (w :: int32)\<bar> < 2 ^ 53"
proof -
  have "sint w < 2 ^ 31" using sint_lt [of w] by simp
  moreover have "- (2 ^ 31) \<le> sint w" using sint_ge [of w] by simp
  ultimately show ?thesis by simp
qed

lemma float64_le_iff: "float64 a \<le> float64 b \<longleftrightarrow> sint a \<le> sint b"
  unfolding float64_def
  by (simp only: float64_of_int_exact [OF sint32_small] of_int_le_iff)

lemma float64_less_iff: "float64 a < float64 b \<longleftrightarrow> sint a < sint b"
  unfolding float64_def
  by (simp only: float64_of_int_exact [OF sint32_small] of_int_less_iff)

lemma inRange_eq_int: "inRange point rect = inRange_int point rect"
  unfolding inRange_def inRange_int_def math_Min_def math_Max_def Let_def
  by (auto simp add: float64_le_iff float64_less_iff min_def max_def)

lemma proto_Equal_iff: "proto_Equal a b \<longleftrightarrow> a = b"
  by (cases a, cases b) (auto simp add: proto_Equal_def)


text \<open>
  C5. The containment test gives the same answer when the two corners of the rectangle are
  exchanged, and it holds exactly when the point's longitude lies between the smaller and
  the greater of the two corner longitudes and its latitude between the smaller and the
  greater of the two corner latitudes, both bounds included.
\<close>

theorem inRange_corner_order_and_bounds:
  "inRange p rect = inRange p (rect\<lparr>Lo := Hi rect, Hi := Lo rect\<rparr>) \<and>
   (inRange p rect \<longleftrightarrow>
      min (sint (Longitude (Lo rect))) (sint (Longitude (Hi rect))) \<le> sint (Longitude p) \<and>
      sint (Longitude p) \<le> max (sint (Longitude (Lo rect))) (sint (Longitude (Hi rect))) \<and>
      min (sint (Latitude (Lo rect))) (sint (Latitude (Hi rect))) \<le> sint (Latitude p) \<and>
      sint (Latitude p) \<le> max (sint (Latitude (Lo rect))) (sint (Latitude (Hi rect))))"
  by (auto simp add: inRange_eq_int inRange_int_def)

text \<open>
  C10. The conversion to float64 is exact on every int32 value, and the containment test
  returns the same boolean as the comparison of the integers themselves.
\<close>

theorem inRange_refines_integer_test:
  "float64 w = real_of_int (sint w) \<and> inRange point rect = inRange_int point rect"
  unfolding float64_def
  by (simp only: float64_of_int_exact [OF sint32_small] inRange_eq_int)

section \<open>GetFeature\<close>

lemma GetFeature_loop_no_error: "snd (GetFeature_loop fs p) = None"
  by (induction fs) auto

lemma GetFeature_loop_none:
  "\<forall>f \<in> set fs. \<not> proto_Equal (Feature.Location f) p \<Longrightarrow>
   GetFeature_loop fs p = (\<lparr>Name = [], Feature.Location = p\<rparr>, None)"
  by (induction fs) auto

lemma GetFeature_loop_first:
  "i < length fs \<Longrightarrow> proto_Equal (Feature.Location (fs ! i)) p \<Longrightarrow>
   \<forall>j < i. \<not> proto_Equal (Feature.Location (fs ! j)) p \<Longrightarrow>
   GetFeature_loop fs p = (fs ! i, None)"
proof (induction fs arbitrary: i)
  case Nil
  then show ?case by simp
next
  case (Cons f fs)
  show ?case
  proof (cases i)
    case 0
    with Cons.prems show ?thesis by simp
  next
    case (Suc k)
    with Cons.prems have "\<not> proto_Equal (Feature.Location f) p" by auto
    moreover have "GetFeature_loop fs p = (fs ! k, None)"
      using Cons.prems Suc by (intro Cons.IH) auto
    ultimately show ?thesis using Suc by simp
  qed
qed

text \<open>
  C2. GetFeature never returns an error. When some feature of the store is located exactly
  at the point, the result is the first such feature in store order, with its name; when
  none is, the result is a feature with the empty name located at the point.
\<close>

theorem GetFeature_first_match_or_unnamed:
  "snd (GetFeature s p) = None \<and>
   (\<forall>i < length (knownFeatures s).
      proto_Equal (Feature.Location (knownFeatures s ! i)) p \<and>
      (\<forall>j < i. \<not> proto_Equal (Feature.Location (knownFeatures s ! j)) p) \<longrightarrow>
      fst (GetFeature s p) = knownFeatures s ! i \<and>
      Name (fst (GetFeature s p)) = Name (knownFeatures s ! i)) \<and>
   ((\<forall>f \<in> set (knownFeatures s). \<not> proto_Equal (Feature.Location f) p) \<longrightarrow>
      fst (GetFeature s p) = \<lparr>Name = [], Feature.Location = p\<rparr>)"
  by (simp add: GetFeature_def GetFeature_loop_no_error GetFeature_loop_none
      GetFeature_loop_first)

theorem GetFeature_first_match_or_unnamed_witness:
  "fst (GetFeature
      \<lparr>knownFeatures =
         [\<lparr>Name = ''a'', Feature.Location = \<lparr>Latitude = 5, Longitude = - 7\<rparr>\<rparr>,
          \<lparr>Name = ''b'', Feature.Location = \<lparr>Latitude = 50, Longitude = - 7\<rparr>\<rparr>,
          \<lparr>Name = ''c'', Feature.Location = \<lparr>Latitude = 50, Longitude = - 7\<rparr>\<rparr>],
       routeNotes = Map.empty\<rparr>
      \<lparr>Latitude = 50, Longitude = - 7\<rparr>) =
     \<lparr>Name = ''b'', Feature.Location = \<lparr>Latitude = 50, Longitude = - 7\<rparr>\<rparr> \<and>
   fst (GetFeature
      \<lparr>knownFeatures =
         [\<lparr>Name = ''a'', Feature.Location = \<lparr>Latitude = 5, Longitude = - 7\<rparr>\<rparr>],
       routeNotes = Map.empty\<rparr>
      \<lparr>Latitude = 50, Longitude = - 7\<rparr>) =
     \<lparr>Name = [], Feature.Location = \<lparr>Latitude = 50, Longitude = - 7\<rparr>\<rparr>"
proof -
  let ?s = "\<lparr>knownFeatures =
         [\<lparr>Name = ''a'', Feature.Location = \<lparr>Latitude = 5, Longitude = - 7\<rparr>\<rparr>,
          \<lparr>Name = ''b'', Feature.Location = \<lparr>Latitude = 50, Longitude = - 7\<rparr>\<rparr>,
          \<lparr>Name = ''c'', Feature.Location = \<lparr>Latitude = 50, Longitude = - 7\<rparr>\<rparr>],
       routeNotes = Map.empty\<rparr>"
  let ?t = "\<lparr>knownFeatures =
         [\<lparr>Name = ''a'', Feature.Location = \<lparr>Latitude = 5, Longitude = - 7\<rparr>\<rparr>],
       routeNotes = Map.empty\<rparr>"
  let ?p = "\<lparr>Latitude = 50, Longitude = - 7\<rparr>"
  have "(1::nat) < length (knownFeatures ?s) \<and>
      proto_Equal (Feature.Location (knownFeatures ?s ! 1)) ?p \<and>
      (\<forall>j < 1. \<not> proto_Equal (Feature.Location (knownFeatures ?s ! j)) ?p)"
    by (simp add: proto_Equal_def)
  then have "fst (GetFeature ?s ?p) = knownFeatures ?s ! 1"
    using GetFeature_first_match_or_unnamed [of ?s ?p] by blast
  moreover have "\<forall>f \<in> set (knownFeatures ?t). \<not> proto_Equal (Feature.Location f) ?p"
    by (simp add: proto_Equal_def)
  then have "fst (GetFeature ?t ?p) = \<lparr>Name = [], Feature.Location = ?p\<rparr>"
    using GetFeature_first_match_or_unnamed [of ?t ?p] by blast
  ultimately show ?thesis by simp
qed

section \<open>ListFeatures\<close>

lemma ListFeatures_loop_ok:
  "(\<forall>k. failAfter stream = Some k \<longrightarrow>
       length (filter (\<lambda>f. inRange (Feature.Location f) rect) fs) \<le> k) \<Longrightarrow>
   fst (ListFeatures_loop rect fs stream) = None \<and>
   sent (snd (ListFeatures_loop rect fs stream)) =
     sent stream @ filter (\<lambda>f. inRange (Feature.Location f) rect) fs"
proof (induction fs arbitrary: stream)
  case Nil
  then show ?case by simp
next
  case (Cons f fs)
  show ?case
  proof (cases "inRange (Feature.Location f) rect")
    case False
    then show ?thesis using Cons.IH [of stream] Cons.prems by simp
  next
    case True
    show ?thesis
    proof (cases "failAfter stream")
      case None
      then have "Send stream f = (None, stream\<lparr>sent := sent stream @ [f]\<rparr>)"
        by (simp add: Send_def)
      then show ?thesis
        using True None Cons.IH [of "stream\<lparr>sent := sent stream @ [f]\<rparr>"] by simp
    next
      case (Some k)
      with Cons.prems True obtain k' where k': "k = Suc k'"
        by (cases k) auto
      then have "Send stream f =
          (None, stream\<lparr>sent := sent stream @ [f], failAfter := Some k'\<rparr>)"
        using Some by (simp add: Send_def)
      then show ?thesis
        using True Some k' Cons.prems
          Cons.IH [of "stream\<lparr>sent := sent stream @ [f], failAfter := Some k'\<rparr>"]
        by simp
    qed
  qed
qed


lemma inRange_fullRectangle: "inRange p fullRectangle"
proof -
  have "sint (Latitude p) < 2 ^ 31" "sint (Longitude p) < 2 ^ 31"
    using sint_lt [of "Latitude p"] sint_lt [of "Longitude p"] by simp_all
  moreover have "- (2 ^ 31) \<le> sint (Latitude p)" "- (2 ^ 31) \<le> sint (Longitude p)"
    using sint_ge [of "Latitude p"] sint_ge [of "Longitude p"] by simp_all
  ultimately show ?thesis
    by (simp add: inRange_eq_int inRange_int_def fullRectangle_def)
qed

text \<open>
  C3. When the transport does not fail before the matching features are sent, ListFeatures
  returns no error and has sent exactly the features of the store whose location passes
  the containment test, each once, in store order. With no matching feature nothing is
  sent; with the rectangle covering all coordinates every feature of the store is sent,
  in store order.
\<close>

theorem ListFeatures_emits_matches_in_store_order:
  assumes "\<forall>k. failAfter stream = Some k \<longrightarrow>
             length (filter (\<lambda>f. inRange (Feature.Location f) rect) (knownFeatures s)) \<le> k"
  shows "fst (ListFeatures s rect stream) = None \<and>
         sent (snd (ListFeatures s rect stream)) =
           sent stream @ filter (\<lambda>f. inRange (Feature.Location f) rect) (knownFeatures s) \<and>
         (filter (\<lambda>f. inRange (Feature.Location f) rect) (knownFeatures s) = [] \<longrightarrow>
            sent (snd (ListFeatures s rect stream)) = sent stream) \<and>
         (rect = fullRectangle \<longrightarrow>
            sent (snd (ListFeatures s rect stream)) = sent stream @ knownFeatures s)"
proof -
  have main: "fst (ListFeatures s rect stream) = None \<and>
         sent (snd (ListFeatures s rect stream)) =
           sent stream @ filter (\<lambda>f. inRange (Feature.Location f) rect) (knownFeatures s)"
    unfolding ListFeatures_def using assms by (rule ListFeatures_loop_ok)
  have "filter (\<lambda>f. inRange (Feature.Location f) fullRectangle) (knownFeatures s) =
      knownFeatures s"
    by (simp add: inRange_fullRectangle)
  with main show ?thesis by auto
qed

theorem ListFeatures_emits_matches_in_store_order_witness:
  "ListFeatures
      \<lparr>knownFeatures =
         [\<lparr>Name = ''a'', Feature.Location = \<lparr>Latitude = 5, Longitude = - 7\<rparr>\<rparr>,
          \<lparr>Name = ''b'', Feature.Location = \<lparr>Latitude = 50, Longitude = - 7\<rparr>\<rparr>,
          \<lparr>Name = ''c'', Feature.Location = \<lparr>Latitude = 0, Longitude = 0\<rparr>\<rparr>],
       routeNotes = Map.empty\<rparr>
      \<lparr>Lo = \<lparr>Latitude = 10, Longitude = 10\<rparr>, Hi = \<lparr>Latitude = 0, Longitude = - 10\<rparr>\<rparr>
      \<lparr>sent = [], failAfter = Some 2\<rparr> =
    (None,
     \<lparr>sent = [\<lparr>Name = ''a'', Feature.Location = \<lparr>Latitude = 5, Longitude = - 7\<rparr>\<rparr>,
              \<lparr>Name = ''c'', Feature.Location = \<lparr>Latitude = 0, Longitude = 0\<rparr>\<rparr>],
      failAfter = Some 0\<rparr>)"
proof -
  let ?s = "\<lparr>knownFeatures =
         [\<lparr>Name = ''a'', Feature.Location = \<lparr>Latitude = 5, Longitude = - 7\<rparr>\<rparr>,
          \<lparr>Name = ''b'', Feature.Location = \<lparr>Latitude = 50, Longitude = - 7\<rparr>\<rparr>,
          \<lparr>Name = ''c'', Feature.Location = \<lparr>Latitude = 0, Longitude = 0\<rparr>\<rparr>],
       routeNotes = Map.empty\<rparr>"
  let ?r = "\<lparr>Lo = \<lparr>Latitude = 10, Longitude = 10\<rparr>, Hi = \<lparr>Latitude = 0, Longitude = - 10\<rparr>\<rparr>"
  let ?st = "\<lparr>sent = [] :: Feature list, failAfter = Some 2\<rparr>"
  have f: "filter (\<lambda>f. inRange (Feature.Location f) ?r) (knownFeatures ?s) =
      [\<lparr>Name = ''a'', Feature.Location = \<lparr>Latitude = 5, Longitude = - 7\<rparr>\<rparr>,
       \<lparr>Name = ''c'', Feature.Location = \<lparr>Latitude = 0, Longitude = 0\<rparr>\<rparr>]"
    by (simp add: inRange_eq_int inRange_int_def)
  then have h: "\<forall>k. failAfter ?st = Some k \<longrightarrow>
      length (filter (\<lambda>f. inRange (Feature.Location f) ?r) (knownFeatures ?s)) \<le> k"
    by simp
  have "fst (ListFeatures ?s ?r ?st) = None \<and>
        sent (snd (ListFeatures ?s ?r ?st)) =
          [\<lparr>Name = ''a'', Feature.Location = \<lparr>Latitude = 5, Longitude = - 7\<rparr>\<rparr>,
           \<lparr>Name = ''c'', Feature.Location = \<lparr>Latitude = 0, Longitude = 0\<rparr>\<rparr>]"
    using ListFeatures_emits_matches_in_store_order [OF h] f by simp
  moreover have "failAfter (snd (ListFeatures ?s ?r ?st)) = Some 0"
    by (simp add: ListFeatures_def Send_def inRange_eq_int inRange_int_def)
  ultimately show ?thesis
    by (cases "ListFeatures ?s ?r ?st") auto
qed

section \<open>calcDistance\<close>

lemma calcDistance_same:
  assumes "rnd fl 0 = 0" "rnd fl 1 = 1" "Sin fl 0 = 0" "Atan2 fl 0 1 = 0" "toInt32 fl 0 = 0"
  shows "calcDistance fl p p = 0"
  using assms by (simp add: calcDistance_def Let_def)

lemma calcDistance_sym:
  assumes r: "\<forall>x. rnd fl (- x) = - rnd fl x" and s: "\<forall>x. Sin fl (- x) = - Sin fl x"
  shows "calcDistance fl p1 p2 = calcDistance fl p2 p1"
proof -
  have d: "rnd fl (x - y) = - rnd fl (y - x)" for x y
    using r [rule_format, of "y - x"] by simp
  have h: "Sin fl (rnd fl (rnd fl (x - y) / 2)) * Sin fl (rnd fl (rnd fl (x - y) / 2)) =
      Sin fl (rnd fl (rnd fl (y - x) / 2)) * Sin fl (rnd fl (rnd fl (y - x) / 2))" for x y
  proof -
    have "rnd fl (rnd fl (x - y) / 2) = - rnd fl (rnd fl (y - x) / 2)"
      using r [rule_format, of "rnd fl (y - x) / 2"] by (simp add: d [of x y])
    then show ?thesis using s by simp
  qed
  have m: "rnd fl (rnd fl (k * Sin fl (rnd fl (rnd fl (x - y) / 2))) *
        Sin fl (rnd fl (rnd fl (x - y) / 2))) =
      rnd fl (rnd fl (k * Sin fl (rnd fl (rnd fl (y - x) / 2))) *
        Sin fl (rnd fl (rnd fl (y - x) / 2)))" for k x y
  proof -
    have e: "rnd fl (rnd fl (x - y) / 2) = - rnd fl (rnd fl (y - x) / 2)"
      using r [rule_format, of "rnd fl (y - x) / 2"] by (simp add: d [of x y])
    show ?thesis unfolding e using r s by simp
  qed
  show ?thesis
    unfolding calcDistance_def Let_def
    by (simp only: h [of "toRadians fl (rnd fl (float64 (Latitude p2) / 10000000))"]
        m [of _ "toRadians fl (rnd fl (float64 (Longitude p2) / 10000000))"]
        mult.commute [of "Cos fl (toRadians fl (rnd fl (float64 (Latitude p1) / 10000000)))"])
qed

lemma calcDistance_exact_same: "calcDistance exact_ops p p = 0"
  by (rule calcDistance_same) (simp_all add: exact_ops_def atan2_def)

text \<open>
  C6. The distance of a point from itself is 0 and the distance is symmetric, for all float64
  operations with these properties of IEEE arithmetic and of the library: 0 and 1 are
  float64 values (rounding leaves them unchanged), \<^verbatim>\<open>Sin(0) = 0\<close>,
  \<^verbatim>\<open>Atan2(0, 1) = 0\<close> and \<^verbatim>\<open>int32(0) = 0\<close> for the first part; rounding and
  \<^verbatim>\<open>Sin\<close> are odd functions for the second.
\<close>

theorem calcDistance_zero_on_equal_points_and_symmetric:
  "(rnd fl 0 = 0 \<and> rnd fl 1 = 1 \<and> Sin fl 0 = 0 \<and> Atan2 fl 0 1 = 0 \<and> toInt32 fl 0 = 0 \<longrightarrow>
      calcDistance fl p p = 0) \<and>
   ((\<forall>x. rnd fl (- x) = - rnd fl x) \<and> (\<forall>x. Sin fl (- x) = - Sin fl x) \<longrightarrow>
      calcDistance fl p1 p2 = calcDistance fl p2 p1)"
  using calcDistance_same [of fl p] calcDistance_sym [of fl p1 p2] by blast

theorem calcDistance_zero_on_equal_points_and_symmetric_witness:
  "calcDistance exact_ops \<lparr>Latitude = 409146138, Longitude = - 746188906\<rparr>
     \<lparr>Latitude = 409146138, Longitude = - 746188906\<rparr> = 0 \<and>
   calcDistance exact_ops \<lparr>Latitude = 409146138, Longitude = - 746188906\<rparr>
     \<lparr>Latitude = 0, Longitude = 1\<rparr> =
   calcDistance exact_ops \<lparr>Latitude = 0, Longitude = 1\<rparr>
     \<lparr>Latitude = 409146138, Longitude = - 746188906\<rparr>"
proof -
  have "rnd exact_ops 0 = 0 \<and> rnd exact_ops 1 = 1 \<and> Sin exact_ops 0 = 0 \<and>
      Atan2 exact_ops 0 1 = 0 \<and> toInt32 exact_ops 0 = 0"
    by (simp add: exact_ops_def atan2_def)
  moreover have "(\<forall>x. rnd exact_ops (- x) = - rnd exact_ops x) \<and>
      (\<forall>x. Sin exact_ops (- x) = - Sin exact_ops x)"
    by (simp add: exact_ops_def)
  ultimately show ?thesis
    using calcDistance_zero_on_equal_points_and_symmetric [of exact_ops
        "\<lparr>Latitude = 409146138, Longitude = - 746188906\<rparr>"
        "\<lparr>Latitude = 409146138, Longitude = - 746188906\<rparr>"
        "\<lparr>Latitude = 0, Longitude = 1\<rparr>"]
    by blast
qed

section \<open>RecordRoute\<close>

lemma countFeatures_eq:
  "countFeatures fs p c = c + of_nat (matchCount fs p)"
  by (induction fs arbitrary: c) (auto simp add: matchCount_def)

lemma RecordRoute_loop_Msgs:
  "RecordRoute_loop fl el fs pc fc d lp (map Msg ps) =
     Inr \<lparr>PointCount = pc + of_nat (length ps),
          FeatureCount = fc + of_nat (\<Sum>p\<leftarrow>ps. matchCount fs p),
          Distance = d + (\<Sum>(a, b)\<leftarrow>legs (case lp of None \<Rightarrow> ps | Some l \<Rightarrow> l # ps). calcDistance fl a b),
          ElapsedTime = el\<rparr>"
proof (induction ps arbitrary: pc fc d lp)
  case Nil
  then show ?case by (simp add: legs_def split: option.splits)
next
  case (Cons p ps)
  show ?case
    by (simp add: Cons.IH countFeatures_eq legs_def add.assoc split: option.splits)
qed

lemma RecordRoute_Msgs:
  "RecordRoute fl el s (map Msg ps) =
     Inr \<lparr>PointCount = of_nat (length ps),
          FeatureCount = of_nat (\<Sum>p\<leftarrow>ps. matchCount (knownFeatures s) p),
          Distance = (\<Sum>(a, b)\<leftarrow>legs ps. calcDistance fl a b),
          ElapsedTime = el\<rparr>"
  by (simp add: RecordRoute_def RecordRoute_loop_Msgs)

lemma sint_of_int_small:
  "- (2 ^ 31) \<le> k \<Longrightarrow> k < 2 ^ 31 \<Longrightarrow> sint (of_int k :: int32) = k"
  by (simp add: sint_sbintrunc' signed_take_bit_int_eq_self)

lemma sint_of_nat_small: "n < 2 ^ 31 \<Longrightarrow> sint (of_nat n :: int32) = int n"
  using sint_of_int_small [of "int n"] by simp

lemma word_sum_list_sint:
  "(\<Sum>x\<leftarrow>xs. f x) = (of_int (\<Sum>x\<leftarrow>xs. sint (f x)) :: int32)"
  by (induction xs) simp_all

lemma sint_sum_list_small:
  "- (2 ^ 31) \<le> (\<Sum>x\<leftarrow>xs. sint (f x)) \<Longrightarrow> (\<Sum>x\<leftarrow>xs. sint (f x)) < 2 ^ 31 \<Longrightarrow>
   sint (\<Sum>x\<leftarrow>xs. f x :: int32) = (\<Sum>x\<leftarrow>xs. sint (f x))"
  by (subst word_sum_list_sint) (rule sint_of_int_small)

lemma RecordRoute_replicate:
  "RecordRoute exact_ops el s (map Msg (replicate n p)) =
     Inr \<lparr>PointCount = of_nat n,
          FeatureCount = of_nat (n * matchCount (knownFeatures s) p),
          Distance = 0,
          ElapsedTime = el\<rparr>"
  unfolding RecordRoute_Msgs
  by (simp add: sum_list_replicate legs_def calcDistance_exact_same)

lemma legs_Nil: "legs [] = []"
  by (simp add: legs_def)

text \<open>
  C1. On a stream of points that ends without a receive error, RecordRoute hands back a
  summary whose fields are the int32 wrap-around of: the number of points received, the
  sum over the received points of the number of store features located exactly at the
  point (a repeated point counts again), and the sum of calcDistance over the consecutive
  pairs (previous, current), the first point adding no distance. Each field equals the
  exact quantity when that quantity is within the int32 range; on the empty stream the
  three fields are 0.
\<close>

theorem RecordRoute_summary_wraps:
  "\<exists>r. RecordRoute fl el s (map Msg ps) = Inr r \<and>
     PointCount r = of_nat (length ps) \<and>
     FeatureCount r = of_nat (\<Sum>p\<leftarrow>ps. matchCount (knownFeatures s) p) \<and>
     Distance r = (\<Sum>(a, b)\<leftarrow>legs ps. calcDistance fl a b) \<and>
     (length ps < 2 ^ 31 \<longrightarrow> sint (PointCount r) = int (length ps)) \<and>
     ((\<Sum>p\<leftarrow>ps. matchCount (knownFeatures s) p) < 2 ^ 31 \<longrightarrow>
        sint (FeatureCount r) = int (\<Sum>p\<leftarrow>ps. matchCount (knownFeatures s) p)) \<and>
     (- (2 ^ 31) \<le> (\<Sum>(a, b)\<leftarrow>legs ps. sint (calcDistance fl a b)) \<and>
      (\<Sum>(a, b)\<leftarrow>legs ps. sint (calcDistance fl a b)) < 2 ^ 31 \<longrightarrow>
        sint (Distance r) = (\<Sum>(a, b)\<leftarrow>legs ps. sint (calcDistance fl a b))) \<and>
     (ps = [] \<longrightarrow> PointCount r = 0 \<and> FeatureCount r = 0 \<and> Distance r = 0)"
proof -
  have d: "sint (\<Sum>(a, b)\<leftarrow>legs ps. calcDistance fl a b) = (\<Sum>(a, b)\<leftarrow>legs ps. sint (calcDistance fl a b))"
    if "- (2 ^ 31) \<le> (\<Sum>(a, b)\<leftarrow>legs ps. sint (calcDistance fl a b))"
      and "(\<Sum>(a, b)\<leftarrow>legs ps. sint (calcDistance fl a b)) < 2 ^ 31"
    using sint_sum_list_small [where xs = "legs ps" and f = "\<lambda>(a, b). calcDistance fl a b"] that
    by (simp add: case_prod_unfold)
  show ?thesis
    unfolding RecordRoute_Msgs
    by (auto simp add: sint_of_nat_small d legs_Nil)
qed


theorem RecordRoute_summary_wraps_witness:
  "\<exists>r. RecordRoute exact_ops 7
       \<lparr>knownFeatures =
          [\<lparr>Name = ''a'', Feature.Location = \<lparr>Latitude = 5, Longitude = - 7\<rparr>\<rparr>,
           \<lparr>Name = ''b'', Feature.Location = \<lparr>Latitude = 50, Longitude = - 7\<rparr>\<rparr>,
           \<lparr>Name = ''c'', Feature.Location = \<lparr>Latitude = 50, Longitude = - 7\<rparr>\<rparr>],
        routeNotes = Map.empty\<rparr>
       (map Msg [\<lparr>Latitude = 0, Longitude = 0\<rparr>, \<lparr>Latitude = 50, Longitude = - 7\<rparr>,
                 \<lparr>Latitude = 50, Longitude = - 7\<rparr>]) = Inr r \<and>
     sint (PointCount r) = 3 \<and> sint (FeatureCount r) = 4 \<and>
     sint (Distance r) =
       sint (calcDistance exact_ops \<lparr>Latitude = 0, Longitude = 0\<rparr>
               \<lparr>Latitude = 50, Longitude = - 7\<rparr>)"
proof -
  let ?A = "\<lparr>Latitude = 0, Longitude = 0\<rparr>"
  let ?B = "\<lparr>Latitude = 50, Longitude = - 7\<rparr>"
  have "sint (calcDistance exact_ops ?A ?B) < 2 ^ 31"
    using sint_lt [of "calcDistance exact_ops ?A ?B"] by simp
  moreover have "- (2 ^ 31) \<le> sint (calcDistance exact_ops ?A ?B)"
    using sint_ge [of "calcDistance exact_ops ?A ?B"] by simp
  ultimately show ?thesis
    using RecordRoute_summary_wraps [of exact_ops 7
      "\<lparr>knownFeatures =
          [\<lparr>Name = ''a'', Feature.Location = \<lparr>Latitude = 5, Longitude = - 7\<rparr>\<rparr>,
           \<lparr>Name = ''b'', Feature.Location = \<lparr>Latitude = 50, Longitude = - 7\<rparr>\<rparr>,
           \<lparr>Name = ''c'', Feature.Location = \<lparr>Latitude = 50, Longitude = - 7\<rparr>\<rparr>],
        routeNotes = Map.empty\<rparr>" "[?A, ?B, ?B]"]
    by (auto simp add: matchCount_def proto_Equal_def legs_def calcDistance_exact_same)
qed

text \<open>
  After \<open>2 ^ 31\<close> points at the origin the counter has wrapped around: the summary's
  point count is \<open>- 2 ^ 31\<close>, not the number of points received.
\<close>

theorem RecordRoute_point_count_counterexample:
  "RecordRoute exact_ops 0 \<lparr>knownFeatures = [], routeNotes = Map.empty\<rparr>
      (map Msg (replicate (2 ^ 31) origin)) =
     Inr \<lparr>PointCount = - 2147483648, FeatureCount = 0, Distance = 0, ElapsedTime = 0\<rparr> \<and>
   sint (- 2147483648 :: int32) \<noteq> int (length (replicate (2 ^ 31) origin))"
proof -
  have "RecordRoute exact_ops 0 \<lparr>knownFeatures = [], routeNotes = Map.empty\<rparr>
      (map Msg (replicate (2 ^ 31) origin)) =
     Inr \<lparr>PointCount = of_nat (2 ^ 31),
          FeatureCount = of_nat (2 ^ 31 * matchCount [] origin),
          Distance = 0, ElapsedTime = 0\<rparr>"
    by (simp only: RecordRoute_replicate server.simps)
  moreover have "(of_nat (2 ^ 31) :: int32) = - 2147483648" by simp
  moreover have "matchCount [] origin = 0" by (simp add: matchCount_def)
  moreover have "length (replicate (2 ^ 31) origin) = 2 ^ 31" by (simp only: length_replicate)
  ultimately show ?thesis by simp
qed




section \<open>RouteChat\<close>

lemma sendNotes_ok:
  "failAfter stream = None \<Longrightarrow>
   sendNotes ns stream = (None, stream\<lparr>sent := sent stream @ ns\<rparr>)"
  by (induction ns arbitrary: stream) (simp_all add: Send_def)

text \<open>
  C4. While the outbound stream does not fail, RouteChat handles an incoming note by
  appending it to the notes stored at the key of its location and sending every note of
  the extended sequence, in order, before it goes on with the rest of the stream. Hence
  one call that receives N1 and then N2 for the same location, where no note was stored
  before, sends N1 and then N1, N2, and returns no error.
\<close>

theorem RouteChat_appends_then_replays:
  assumes "failAfter stream = None"
  shows "RouteChat s (Msg n # rest) stream =
           RouteChat
             (s\<lparr>routeNotes := (routeNotes s)(routeKey (RouteNote.Location n) \<mapsto>
                  notesAt s (RouteNote.Location n) @ [n])\<rparr>)
             rest
             (stream\<lparr>sent := sent stream @ notesAt s (RouteNote.Location n) @ [n]\<rparr>) \<and>
         (RouteNote.Location n1 = RouteNote.Location n2 \<and>
          notesAt s (RouteNote.Location n1) = [] \<longrightarrow>
            RouteChat s [Msg n1, Msg n2] stream =
              (None,
               s\<lparr>routeNotes := (routeNotes s)(routeKey (RouteNote.Location n1) \<mapsto> [n1, n2])\<rparr>,
               stream\<lparr>sent := sent stream @ [n1] @ [n1, n2]\<rparr>))"
proof (intro conjI impI)
  show "RouteChat s (Msg n # rest) stream =
           RouteChat
             (s\<lparr>routeNotes := (routeNotes s)(routeKey (RouteNote.Location n) \<mapsto>
                  notesAt s (RouteNote.Location n) @ [n])\<rparr>)
             rest
             (stream\<lparr>sent := sent stream @ notesAt s (RouteNote.Location n) @ [n]\<rparr>)"
    using assms by (simp add: sendNotes_ok notesAt_def Let_def)
next
  assume a: "RouteNote.Location n1 = RouteNote.Location n2 \<and>
      notesAt s (RouteNote.Location n1) = []"
  then have "routeNotes s (routeKey (RouteNote.Location n2)) = None \<or>
      routeNotes s (routeKey (RouteNote.Location n2)) = Some []"
    by (auto simp add: notesAt_def split: option.splits)
  then show "RouteChat s [Msg n1, Msg n2] stream =
      (None,
       s\<lparr>routeNotes := (routeNotes s)(routeKey (RouteNote.Location n1) \<mapsto> [n1, n2])\<rparr>,
       stream\<lparr>sent := sent stream @ [n1] @ [n1, n2]\<rparr>)"
    using assms a by (auto simp add: sendNotes_ok Let_def)
qed

theorem RouteChat_appends_then_replays_witness:
  "RouteChat \<lparr>knownFeatures = [], routeNotes = Map.empty\<rparr>
     [Msg \<lparr>RouteNote.Location = \<lparr>Latitude = 0, Longitude = 1\<rparr>, Message = ''I was here!''\<rparr>,
      Msg \<lparr>RouteNote.Location = \<lparr>Latitude = 0, Longitude = 1\<rparr>, Message = ''Ummm...''\<rparr>]
     \<lparr>sent = [], failAfter = None\<rparr> =
   (None,
    \<lparr>knownFeatures = [],
     routeNotes = [routeKey \<lparr>Latitude = 0, Longitude = 1\<rparr> \<mapsto>
       [\<lparr>RouteNote.Location = \<lparr>Latitude = 0, Longitude = 1\<rparr>, Message = ''I was here!''\<rparr>,
        \<lparr>RouteNote.Location = \<lparr>Latitude = 0, Longitude = 1\<rparr>, Message = ''Ummm...''\<rparr>]]\<rparr>,
    \<lparr>sent =
       [\<lparr>RouteNote.Location = \<lparr>Latitude = 0, Longitude = 1\<rparr>, Message = ''I was here!''\<rparr>,
        \<lparr>RouteNote.Location = \<lparr>Latitude = 0, Longitude = 1\<rparr>, Message = ''I was here!''\<rparr>,
        \<lparr>RouteNote.Location = \<lparr>Latitude = 0, Longitude = 1\<rparr>, Message = ''Ummm...''\<rparr>],
     failAfter = None\<rparr>)"
proof -
  let ?s = "\<lparr>knownFeatures = [], routeNotes = Map.empty\<rparr>"
  let ?st = "\<lparr>sent = [] :: RouteNote list, failAfter = None\<rparr>"
  let ?n1 = "\<lparr>RouteNote.Location = \<lparr>Latitude = 0, Longitude = 1\<rparr>, Message = ''I was here!''\<rparr>"
  let ?n2 = "\<lparr>RouteNote.Location = \<lparr>Latitude = 0, Longitude = 1\<rparr>, Message = ''Ummm...''\<rparr>"
  have h: "failAfter ?st = None" by simp
  have "RouteNote.Location ?n1 = RouteNote.Location ?n2 \<and> notesAt ?s (RouteNote.Location ?n1) = []"
    by (simp add: notesAt_def)
  then show ?thesis
    using RouteChat_appends_then_replays [OF h, of ?s ?n1 "[]" ?n1 ?n2] by simp
qed

subsection \<open>The key of a location\<close>

declare digits.simps [simp del]

lemma digit_char_code: "d < 10 \<Longrightarrow> (of_char (digit_char d) :: nat) = 48 + d"
proof -
  assume "d < 10"
  have "(of_char (char_of (48 + d)) :: nat) = (48 + d) mod 256" by (rule of_char_of)
  also have "\<dots> = 48 + d" using \<open>d < 10\<close> by simp
  finally show ?thesis by (simp only: digit_char_def)
qed

lemma digit_char_inj: "d < 10 \<Longrightarrow> e < 10 \<Longrightarrow> digit_char d = digit_char e \<Longrightarrow> d = e"
proof -
  assume d: "d < 10" and e: "e < 10" and eq: "digit_char d = digit_char e"
  have "48 + d = (of_char (digit_char d) :: nat)" using d by (simp only: digit_char_code)
  also have "\<dots> = of_char (digit_char e)" by (simp only: eq)
  also have "\<dots> = 48 + e" using e by (simp only: digit_char_code)
  finally show "d = e" by simp
qed

lemma digit_char_not_space: "d < 10 \<Longrightarrow> digit_char d \<noteq> CHR '' ''"
proof
  assume "d < 10" and "digit_char d = CHR '' ''"
  then have "(of_char (CHR '' '') :: nat) = 48 + d" by (simp only: digit_char_code [symmetric])
  then show False by simp
qed

lemma digit_char_not_minus: "d < 10 \<Longrightarrow> digit_char d \<noteq> CHR ''-''"
proof
  assume "d < 10" and "digit_char d = CHR ''-''"
  then have "(of_char (CHR ''-'') :: nat) = 48 + d" by (simp only: digit_char_code [symmetric])
  then show False by simp
qed

lemma digits_set: "c \<in> set (digits n) \<Longrightarrow> \<exists>d < 10. c = digit_char d"
proof (induction n rule: digits.induct)
  case (1 n)
  show ?case
  proof (cases "n < 10")
    case True
    with "1.prems" show ?thesis by (auto simp add: digits.simps [of n])
  next
    case False
    with "1.prems" have "c \<in> set (digits (n div 10)) \<or> c = digit_char (n mod 10)"
      by (auto simp add: digits.simps [of n])
    then show ?thesis
    proof
      assume "c \<in> set (digits (n div 10))"
      with False "1.IH" show ?thesis by simp
    next
      assume "c = digit_char (n mod 10)"
      moreover have "n mod 10 < 10" by simp
      ultimately show ?thesis by blast
    qed
  qed
qed

lemma digits_not_Nil: "digits n \<noteq> []"
  by (subst digits.simps) simp

lemma digits_inj: "digits n = digits m \<Longrightarrow> n = m"
proof (induction n arbitrary: m rule: digits.induct)
  case (1 n)
  show ?case
  proof (cases "n < 10")
    case n: True
    show ?thesis
    proof (cases "m < 10")
      case True
      with n "1.prems" show ?thesis
        by (auto simp add: digits.simps [of n] digits.simps [of m] dest: digit_char_inj)
    next
      case False
      with n "1.prems" show ?thesis
        using digits_not_Nil [of "m div 10"]
        by (auto simp add: digits.simps [of n] digits.simps [of m])
    qed
  next
    case n: False
    show ?thesis
    proof (cases "m < 10")
      case True
      with n "1.prems" show ?thesis
        using digits_not_Nil [of "n div 10"]
        by (auto simp add: digits.simps [of n] digits.simps [of m])
    next
      case False
      with n "1.prems" have e: "digits (n div 10) = digits (m div 10)"
        and d: "digit_char (n mod 10) = digit_char (m mod 10)"
        by (auto simp add: digits.simps [of n] digits.simps [of m])
      from e n have "n div 10 = m div 10" by (intro "1.IH") auto
      moreover from d have "n mod 10 = m mod 10" by (intro digit_char_inj) auto
      ultimately show ?thesis by (metis div_mult_mod_eq)
    qed
  qed
qed

lemma digits_no_space: "CHR '' '' \<notin> set (digits n)"
proof
  assume "CHR '' '' \<in> set (digits n)"
  then obtain d where "d < 10" "CHR '' '' = digit_char d" using digits_set by blast
  then show False using digit_char_not_space [of d] by simp
qed

lemma format_d_no_space: "CHR '' '' \<notin> set (format_d i)"
  using digits_no_space by (simp add: format_d_def)

lemma digits_hd_not_minus: "digits n \<noteq> CHR ''-'' # cs"
proof
  assume "digits n = CHR ''-'' # cs"
  then have "CHR ''-'' \<in> set (digits n)" by simp
  then obtain d where "d < 10" "CHR ''-'' = digit_char d" using digits_set by blast
  then show False using digit_char_not_minus [of d] by simp
qed

lemma format_d_inj: "format_d i = format_d j \<Longrightarrow> i = j"
proof -
  assume a: "format_d i = format_d j"
  consider "i < 0" "j < 0" | "i < 0" "\<not> j < 0" | "\<not> i < 0" "j < 0" | "\<not> i < 0" "\<not> j < 0"
    by blast
  then show ?thesis
  proof cases
    case 1
    with a have "nat (- i) = nat (- j)" by (auto simp add: format_d_def dest: digits_inj)
    with 1 show ?thesis by simp
  next
    case 2
    with a have "digits (nat j) = CHR ''-'' # digits (nat (- i))"
      by (simp add: format_d_def)
    then show ?thesis using digits_hd_not_minus by blast
  next
    case 3
    with a have "digits (nat i) = CHR ''-'' # digits (nat (- j))"
      by (simp add: format_d_def)
    then show ?thesis using digits_hd_not_minus by blast
  next
    case 4
    with a have "nat i = nat j" by (auto simp add: format_d_def dest: digits_inj)
    with 4 show ?thesis by simp
  qed
qed

lemma split_at_separator:
  "c \<notin> set xs \<Longrightarrow> c \<notin> set xs' \<Longrightarrow> xs @ c # ys = xs' @ c # ys' \<Longrightarrow> xs = xs' \<and> ys = ys'"
proof (induction xs arbitrary: xs')
  case Nil
  then show ?case by (cases xs') auto
next
  case (Cons x xs)
  then show ?case by (cases xs') auto
qed

lemma routeKey_injective:
  "routeKey p = routeKey q \<longleftrightarrow> Latitude p = Latitude q \<and> Longitude p = Longitude q"
proof
  assume "routeKey p = routeKey q"
  then have "format_d (sint (Latitude p)) = format_d (sint (Latitude q)) \<and>
      format_d (sint (Longitude p)) = format_d (sint (Longitude q))"
    unfolding routeKey_def
    using split_at_separator [OF format_d_no_space format_d_no_space] by simp
  then have "sint (Latitude p) = sint (Latitude q) \<and> sint (Longitude p) = sint (Longitude q)"
    by (auto dest: format_d_inj)
  then show "Latitude p = Latitude q \<and> Longitude p = Longitude q"
    by (auto intro: signed_word_eqI)
next
  assume "Latitude p = Latitude q \<and> Longitude p = Longitude q"
  then show "routeKey p = routeKey q" by (simp add: routeKey_def)
qed

text \<open>
  C9. Two points have the same key exactly when their latitudes are equal and their
  longitudes are equal; a note received for one location leaves the notes stored for any
  location with other coordinates unchanged.
\<close>

theorem routeKey_injective_on_coordinates:
  "(routeKey p = routeKey q \<longleftrightarrow> Latitude p = Latitude q \<and> Longitude p = Longitude q) \<and>
   (Latitude q \<noteq> Latitude (RouteNote.Location n) \<or>
    Longitude q \<noteq> Longitude (RouteNote.Location n) \<longrightarrow>
      notesAt (fst (snd (RouteChat s [Msg n] stream))) q = notesAt s q)"
proof -
  have "notesAt (fst (snd (RouteChat s [Msg n] stream))) q = notesAt s q"
    if "routeKey q \<noteq> routeKey (RouteNote.Location n)"
    using that by (simp add: notesAt_def Let_def split: prod.splits option.splits)
  then show ?thesis using routeKey_injective [of p q] routeKey_injective [of q "RouteNote.Location n"]
    by blast
qed

theorem routeKey_injective_on_coordinates_witness:
  "notesAt (fst (snd (RouteChat \<lparr>knownFeatures = [], routeNotes = Map.empty\<rparr>
       [Msg \<lparr>RouteNote.Location = \<lparr>Latitude = 0, Longitude = 1\<rparr>, Message = ''I was here!''\<rparr>]
       \<lparr>sent = [], failAfter = None\<rparr>)))
     \<lparr>Latitude = 0, Longitude = 11\<rparr> = []"
  using routeKey_injective_on_coordinates [of "\<lparr>Latitude = 0, Longitude = 1\<rparr>"
      "\<lparr>Latitude = 0, Longitude = 11\<rparr>"
      "\<lparr>RouteNote.Location = \<lparr>Latitude = 0, Longitude = 1\<rparr>, Message = ''I was here!''\<rparr>"
      "\<lparr>knownFeatures = [], routeNotes = Map.empty\<rparr>"
      "\<lparr>sent = [], failAfter = None\<rparr>"]
  by (simp add: notesAt_def)

end
